theory Spec2Isabelle
  imports Complex_Main
begin

section \<open>Data model of the Pomodoro tracker\<close>

text \<open>
  The component keeps its state in React state cells. Each cell is a value here and each
  handler is a function from the cells it reads to the cells it writes. JavaScript numbers
  that hold counts and durations are integers on every path of the component
  (\<^verbatim>\<open>parseInt(..) || default\<close>, literals, \<^verbatim>\<open>+ 1\<close>, \<^verbatim>\<open>- 1\<close>), so they are \<^typ>\<open>int\<close>;
  the volume is a fraction. Strings are lists of 8-bit characters, which covers the code
  units up to U+00FF.
\<close>

record TodoItem =
  id_todo :: string
  title :: string
  estimatedPomodoros :: int
  completedPomodoros :: int
  isCompleted :: bool

record PomodoroTimer =
  minutes :: int
  seconds :: int
  isActive :: bool
  isBreak :: bool
  currentTaskId :: "string option"

record Settings =
  workDuration :: int
  breakDuration :: int
  notificationsEnabled :: bool
  musicEnabled :: bool
  musicVolume :: real

record YouTubeTrack =
  id_track :: string
  title_track :: string
  videoId :: string
  url :: string

text \<open>\<^verbatim>\<open>Partial<Settings>\<close>: every field may be absent.\<close>

record PartialSettings =
  workDuration_opt :: "int option"
  breakDuration_opt :: "int option"
  notificationsEnabled_opt :: "bool option"
  musicEnabled_opt :: "bool option"
  musicVolume_opt :: "real option"

text \<open>
  The object that \<^verbatim>\<open>JSON.parse\<close> returns for the timer slot: a field of the snapshot is
  present or not, and a present \<^verbatim>\<open>currentTaskId\<close> is a string or \<^verbatim>\<open>null\<close>.
\<close>

record ParsedTimer =
  minutes_opt :: "int option"
  seconds_opt :: "int option"
  isActive_opt :: "bool option"
  isBreak_opt :: "bool option"
  currentTaskId_opt :: "string option option"

text \<open>A slot of the local store: never written, not parseable, or parsed.\<close>

datatype 'a slot = Absent | Malformed | Parsed 'a

text \<open>The initial values of the \<^verbatim>\<open>useState\<close> cells.\<close>

definition initialSettings :: Settings where
  "initialSettings =
     \<lparr>workDuration = 25, breakDuration = 5, notificationsEnabled = True,
      musicEnabled = False, musicVolume = 1 / 2\<rparr>"

definition initialTimer :: PomodoroTimer where
  "initialTimer =
     \<lparr>minutes = 25, seconds = 0, isActive = False, isBreak = False, currentTaskId = None\<rparr>"

section \<open>Persistence of the timer\<close>

text \<open>\<^verbatim>\<open>JSON.stringify(timer)\<close> followed by \<^verbatim>\<open>JSON.parse\<close>: all five fields are present.\<close>

definition saveTimer :: "PomodoroTimer \<Rightarrow> ParsedTimer slot" where
  "saveTimer t =
     Parsed \<lparr>minutes_opt = Some (minutes t), seconds_opt = Some (seconds t),
             isActive_opt = Some (isActive t), isBreak_opt = Some (isBreak t),
             currentTaskId_opt = Some (currentTaskId t)\<rparr>"

text \<open>The object spread \<^verbatim>\<open>{ ...prev, ...parsedTimer }\<close>: a present field overrides.\<close>

definition spreadTimer :: "PomodoroTimer \<Rightarrow> ParsedTimer \<Rightarrow> PomodoroTimer" where
  "spreadTimer prev p =
     \<lparr>minutes = (case minutes_opt p of None \<Rightarrow> minutes prev | Some v \<Rightarrow> v),
      seconds = (case seconds_opt p of None \<Rightarrow> seconds prev | Some v \<Rightarrow> v),
      isActive = (case isActive_opt p of None \<Rightarrow> isActive prev | Some v \<Rightarrow> v),
      isBreak = (case isBreak_opt p of None \<Rightarrow> isBreak prev | Some v \<Rightarrow> v),
      currentTaskId = (case currentTaskId_opt p of None \<Rightarrow> currentTaskId prev | Some v \<Rightarrow> v)\<rparr>"

text \<open>
  The timer branch of the mount effect: nothing happens without a saved slot, a parse error
  is caught and logged, and a parsed snapshot is spread over the current timer with
  \<^verbatim>\<open>isActive: false\<close> written last.
\<close>

definition loadTimer :: "ParsedTimer slot \<Rightarrow> PomodoroTimer \<Rightarrow> PomodoroTimer" where
  "loadTimer savedTimer prev =
     (case savedTimer of
        Absent \<Rightarrow> prev
      | Malformed \<Rightarrow> prev
      | Parsed parsedTimer \<Rightarrow> (spreadTimer prev parsedTimer)\<lparr>isActive := False\<rparr>)"

section \<open>Session engine\<close>

text \<open>
  \<^verbatim>\<open>showNotification\<close> constructs a notification only when the setting is on and the
  browser has granted the permission (\<open>granted\<close>); the result lists the notifications shown.
\<close>

definition showNotification :: "Settings \<Rightarrow> bool \<Rightarrow> string \<Rightarrow> string \<Rightarrow> (string \<times> string) list" where
  "showNotification s granted ttl body =
     (if notificationsEnabled s \<and> granted then [(ttl, body)] else [])"

text \<open>Truthiness of a \<^verbatim>\<open>string | null\<close>: \<^verbatim>\<open>null\<close> and the empty string are falsy.\<close>

definition truthy :: "string option \<Rightarrow> bool" where
  "truthy v = (case v of None \<Rightarrow> False | Some x \<Rightarrow> x \<noteq> [])"

text \<open>
  One firing of the interval: the updater passed to \<^verbatim>\<open>setTimer\<close>, with the
  \<^verbatim>\<open>setTodos\<close> call and the notification it makes on the way. \<open>s\<close> is the settings
  object the interval closure holds. The result is the new timer, the new task list and
  the notifications shown.
\<close>

definition tick ::
  "Settings \<Rightarrow> bool \<Rightarrow> PomodoroTimer \<times> TodoItem list \<Rightarrow>
     PomodoroTimer \<times> TodoItem list \<times> (string \<times> string) list" where
  "tick s granted st =
     (let prevTimer = fst st; prevTodos = snd st in
      if seconds prevTimer > 0 then
        (prevTimer\<lparr>seconds := seconds prevTimer - 1\<rparr>, prevTodos, [])
      else if minutes prevTimer > 0 then
        (prevTimer\<lparr>minutes := minutes prevTimer - 1, seconds := 59\<rparr>, prevTodos, [])
      else
        (let completion =
           (if \<not> isBreak prevTimer \<and> truthy (currentTaskId prevTimer) then
              (map (\<lambda>todo.
                      if Some (id_todo todo) = currentTaskId prevTimer
                      then todo\<lparr>completedPomodoros := completedPomodoros todo + 1\<rparr>
                      else todo) prevTodos,
               showNotification s granted ''Pomodoro Complete!'' ''Great work! Time for a break.'')
            else if isBreak prevTimer then
              (prevTodos, showNotification s granted ''Break Over!'' ''Ready to get back to work?'')
            else (prevTodos, []));
           newIsBreak = \<not> isBreak prevTimer;
           newMinutes = (if newIsBreak then breakDuration s else workDuration s)
         in (prevTimer\<lparr>minutes := newMinutes, seconds := 0, isActive := False,
                        isBreak := newIsBreak\<rparr>,
             fst completion, snd completion)))"

text \<open>\<open>n\<close> firings in a row, the notifications collected in order.\<close>

fun ticks ::
  "Settings \<Rightarrow> bool \<Rightarrow> nat \<Rightarrow> PomodoroTimer \<times> TodoItem list \<times> (string \<times> string) list \<Rightarrow>
     PomodoroTimer \<times> TodoItem list \<times> (string \<times> string) list" where
  "ticks s granted 0 st = st"
| "ticks s granted (Suc n) (t, todos, shown) =
     (case tick s granted (t, todos) of
        (t', todos', new) \<Rightarrow> ticks s granted n (t', todos', shown @ new))"

text \<open>The time left on the timer, in seconds.\<close>

definition remainingSeconds :: "PomodoroTimer \<Rightarrow> int" where
  "remainingSeconds t = 60 * minutes t + seconds t"

definition startPomodoroForTask :: "Settings \<Rightarrow> string \<Rightarrow> PomodoroTimer" where
  "startPomodoroForTask s taskId =
     \<lparr>minutes = workDuration s, seconds = 0, isActive = True, isBreak = False,
      currentTaskId = Some taskId\<rparr>"

definition toggleTimer :: "PomodoroTimer \<Rightarrow> PomodoroTimer" where
  "toggleTimer prev = prev\<lparr>isActive := \<not> isActive prev\<rparr>"

definition resetTimer :: "Settings \<Rightarrow> PomodoroTimer \<Rightarrow> PomodoroTimer" where
  "resetTimer s timer =
     \<lparr>minutes = (if isBreak timer then breakDuration s else workDuration s), seconds = 0,
      isActive = False, isBreak = isBreak timer, currentTaskId = currentTaskId timer\<rparr>"

definition switchMode :: "Settings \<Rightarrow> PomodoroTimer \<Rightarrow> PomodoroTimer" where
  "switchMode s timer =
     (let newIsBreak = \<not> isBreak timer;
          newMinutes = (if newIsBreak then breakDuration s else workDuration s)
      in \<lparr>minutes = newMinutes, seconds = 0, isActive = False, isBreak = newIsBreak,
          currentTaskId = (if newIsBreak then None else currentTaskId timer)\<rparr>)"

text \<open>
  A button of the page: the browser does not deliver a click to a button whose
  \<^verbatim>\<open>disabled\<close> attribute is set, so the handler runs only when it is clear.
\<close>

definition click :: "bool \<Rightarrow> ('st \<Rightarrow> 'st) \<Rightarrow> 'st \<Rightarrow> 'st" where
  "click disabled onClick st = (if disabled then st else onClick st)"

text \<open>The mode button: \<^verbatim>\<open>onClick={switchMode} disabled={timer.isActive}\<close>.\<close>

definition switchModeButton :: "Settings \<Rightarrow> PomodoroTimer \<Rightarrow> PomodoroTimer" where
  "switchModeButton s timer = click (isActive timer) (switchMode s) timer"

section \<open>Settings store\<close>

definition mergeSettings :: "Settings \<Rightarrow> PartialSettings \<Rightarrow> Settings" where
  "mergeSettings prev n =
     \<lparr>workDuration = (case workDuration_opt n of None \<Rightarrow> workDuration prev | Some v \<Rightarrow> v),
      breakDuration = (case breakDuration_opt n of None \<Rightarrow> breakDuration prev | Some v \<Rightarrow> v),
      notificationsEnabled =
        (case notificationsEnabled_opt n of None \<Rightarrow> notificationsEnabled prev | Some v \<Rightarrow> v),
      musicEnabled = (case musicEnabled_opt n of None \<Rightarrow> musicEnabled prev | Some v \<Rightarrow> v),
      musicVolume = (case musicVolume_opt n of None \<Rightarrow> musicVolume prev | Some v \<Rightarrow> v)\<rparr>"

text \<open>
  \<^verbatim>\<open>updateSettings\<close> merges the update into the settings and, when the timer is not
  active, writes the duration of the current kind into \<^verbatim>\<open>minutes\<close>; \<^verbatim>\<open>??\<close> falls
  back to the stored duration when the update does not carry one.
\<close>

definition updateSettings ::
  "PartialSettings \<Rightarrow> Settings \<times> PomodoroTimer \<Rightarrow> Settings \<times> PomodoroTimer" where
  "updateSettings newSettings st =
     (let settings = fst st; timer = snd st in
      (mergeSettings settings newSettings,
       if \<not> isActive timer then
         timer\<lparr>minutes :=
           (if isBreak timer
            then (case breakDuration_opt newSettings of
                    None \<Rightarrow> breakDuration settings | Some v \<Rightarrow> v)
            else (case workDuration_opt newSettings of
                    None \<Rightarrow> workDuration settings | Some v \<Rightarrow> v))\<rparr>
       else timer))"

text \<open>The update object \<^verbatim>\<open>{ workDuration: w }\<close> of the work-duration input.\<close>

definition workDurationUpdate :: "int \<Rightarrow> PartialSettings" where
  "workDurationUpdate w =
     \<lparr>workDuration_opt = Some w, breakDuration_opt = None, notificationsEnabled_opt = None,
      musicEnabled_opt = None, musicVolume_opt = None\<rparr>"

text \<open>
  The \<^verbatim>\<open>onChange\<close> handler of the work-duration input:
  \<^verbatim>\<open>updateSettings({ workDuration: parseInt(e.target.value) || 25 })\<close>. The argument
  \<open>parsed\<close> is the value of \<^verbatim>\<open>parseInt(e.target.value)\<close>, with \<open>None\<close> for
  \<^verbatim>\<open>NaN\<close>. The operator \<^verbatim>\<open>||\<close> replaces the falsy numbers, \<^verbatim>\<open>NaN\<close> and 0, by the
  default; every other integer, a negative one included, goes through. The
  \<^verbatim>\<open>min="1"\<close> attribute of the input does not change the value the handler reads.
\<close>

definition orDefault :: "int option \<Rightarrow> int \<Rightarrow> int" where
  "orDefault parsed d = (case parsed of None \<Rightarrow> d | Some n \<Rightarrow> if n = 0 then d else n)"

definition workDurationChange ::
  "int option \<Rightarrow> Settings \<times> PomodoroTimer \<Rightarrow> Settings \<times> PomodoroTimer" where
  "workDurationChange parsed st = updateSettings (workDurationUpdate (orDefault parsed 25)) st"

section \<open>Task registry\<close>

definition deleteTodo ::
  "string \<Rightarrow> TodoItem list \<times> PomodoroTimer \<Rightarrow> TodoItem list \<times> PomodoroTimer" where
  "deleteTodo i st =
     (let todos = fst st; timer = snd st in
      (filter (\<lambda>todo. id_todo todo \<noteq> i) todos,
       if currentTaskId timer = Some i
       then timer\<lparr>currentTaskId := None, isActive := False\<rparr>
       else timer))"

text \<open>
  \<^verbatim>\<open>String.prototype.trim\<close> strips white space and line terminators from both ends.
  In the modelled range of code units these are TAB, LF, VT, FF, CR, SP and NBSP.
\<close>

definition isWhiteSpace :: "char \<Rightarrow> bool" where
  "isWhiteSpace c =
     (c = CHR 0x09 \<or> c = CHR 0x0A \<or> c = CHR 0x0B \<or> c = CHR 0x0C \<or> c = CHR 0x0D \<or>
      c = CHR 0x20 \<or> c = CHR 0xA0)"

definition trim :: "string \<Rightarrow> string" where
  "trim str = rev (dropWhile isWhiteSpace (rev (dropWhile isWhiteSpace str)))"

text \<open>\<^verbatim>\<open>Number.prototype.toString\<close> on a non-negative integer: its decimal digits.\<close>

definition digit :: "nat \<Rightarrow> char" where
  "digit d = ''0123456789'' ! d"

fun toString :: "nat \<Rightarrow> string" where
  "toString n =
     (if n < 10 then [digit n] else toString (n div 10) @ [digit (n mod 10)])"

declare toString.simps [simp del]

text \<open>The cells of the add-task form together with the task list.\<close>

record TodoForm =
  todos :: "TodoItem list"
  newTodoTitle :: string
  newTodoPomodoros :: int

text \<open>\<^verbatim>\<open>addTodo\<close>; \<open>now\<close> is the value of \<^verbatim>\<open>Date.now()\<close>.\<close>

definition addTodo :: "nat \<Rightarrow> TodoForm \<Rightarrow> TodoForm" where
  "addTodo now st =
     (if trim (newTodoTitle st) \<noteq> [] then
        (let newTodo =
           \<lparr>id_todo = toString now, title = trim (newTodoTitle st),
            estimatedPomodoros = newTodoPomodoros st, completedPomodoros = 0,
            isCompleted = False\<rparr>
         in \<lparr>todos = todos st @ [newTodo], newTodoTitle = [], newTodoPomodoros = 1\<rparr>)
      else st)"

section \<open>Playback controller\<close>

text \<open>
  The three patterns of \<^verbatim>\<open>extractVideoId\<close> have the same shape: one of a few literal
  prefixes followed by the group \<^verbatim>\<open>([^&\n?#]+)\<close>. \<^verbatim>\<open>String.prototype.match\<close> without
  the global flag returns the leftmost match; at one position the alternatives are tried
  in order, and the greedy group, being last in the pattern, takes the longest run.
\<close>

definition idChar :: "char \<Rightarrow> bool" where
  "idChar c = (c \<noteq> CHR ''&'' \<and> c \<noteq> CHR 0x0A \<and> c \<noteq> CHR ''?'' \<and> c \<noteq> CHR ''#'')"

fun startsWith :: "string \<Rightarrow> string \<Rightarrow> bool" where
  "startsWith str [] = True"
| "startsWith [] (p # ps) = False"
| "startsWith (c # cs) (p # ps) = (c = p \<and> startsWith cs ps)"

text \<open>The match of one literal followed by the group at the head of \<open>str\<close>: the group.\<close>

definition matchLiteral :: "string \<Rightarrow> string \<Rightarrow> string option" where
  "matchLiteral lit str =
     (if startsWith str lit \<and> takeWhile idChar (drop (length lit) str) \<noteq> []
      then Some (takeWhile idChar (drop (length lit) str)) else None)"

fun matchHere :: "string list \<Rightarrow> string \<Rightarrow> string option" where
  "matchHere [] str = None"
| "matchHere (lit # lits) str =
     (case matchLiteral lit str of Some g \<Rightarrow> Some g | None \<Rightarrow> matchHere lits str)"

text \<open>\<^verbatim>\<open>url.match(pattern)\<close>: the group of the leftmost match, if there is a match.\<close>

fun matchPattern :: "string list \<Rightarrow> string \<Rightarrow> string option" where
  "matchPattern lits [] = matchHere lits []"
| "matchPattern lits (c # cs) =
     (case matchHere lits (c # cs) of Some g \<Rightarrow> Some g | None \<Rightarrow> matchPattern lits cs)"

definition patterns :: "string list list" where
  "patterns =
     [[''youtube.com/watch?v='', ''youtu.be/''],
      [''youtube.com/embed/''],
      [''youtube.com/v/'']]"

fun firstMatch :: "string list list \<Rightarrow> string \<Rightarrow> string option" where
  "firstMatch [] u = None"
| "firstMatch (pattern # rest) u =
     (case matchPattern pattern u of Some g \<Rightarrow> Some g | None \<Rightarrow> firstMatch rest u)"

definition extractVideoId :: "string \<Rightarrow> string option" where
  "extractVideoId u = firstMatch patterns u"

text \<open>
  The playback cells: the playlist, the index of the current track, whether music plays,
  whether the player handle \<^verbatim>\<open>youtubePlayer\<close> is set, and the URL input.
\<close>

record Playback =
  youtubePlaylist :: "YouTubeTrack list"
  currentTrack :: int
  isPlaying :: bool
  youtubePlayer :: bool
  newYoutubeUrl :: string

text \<open>What a handler does besides writing cells: alerts and calls on the player.\<close>

datatype effect =
    Alert string
  | LoadVideoById string
  | PlayMusicAfter nat

text \<open>\<^verbatim>\<open>addYouTubeTrack\<close>; \<open>now\<close> is the value of \<^verbatim>\<open>Date.now()\<close>.\<close>

definition addYouTubeTrack :: "nat \<Rightarrow> Playback \<Rightarrow> Playback \<times> effect list" where
  "addYouTubeTrack now pb =
     (if trim (newYoutubeUrl pb) = [] then (pb, [])
      else
        (case extractVideoId (newYoutubeUrl pb) of
           None \<Rightarrow> (pb, [Alert ''Please enter a valid YouTube URL''])
         | Some v \<Rightarrow>
             if v = [] then (pb, [Alert ''Please enter a valid YouTube URL''])
             else
               (let newTrack =
                  \<lparr>id_track = toString now, title_track = ''YouTube Video '' @ v,
                   videoId = v, url = newYoutubeUrl pb\<rparr>
                in (pb\<lparr>youtubePlaylist := youtubePlaylist pb @ [newTrack],
                       newYoutubeUrl := []\<rparr>, []))))"

definition removeTrack :: "string \<Rightarrow> Playback \<Rightarrow> Playback" where
  "removeTrack trackId pb =
     pb\<lparr>youtubePlaylist := filter (\<lambda>track. id_track track \<noteq> trackId) (youtubePlaylist pb),
        currentTrack :=
          (if int (length (youtubePlaylist pb)) \<le> 1 then 0
           else if currentTrack pb \<ge> int (length (youtubePlaylist pb)) - 1 then 0
           else currentTrack pb)\<rparr>"

text \<open>
  The remainder operator \<^verbatim>\<open>%\<close> on integers takes the sign of the dividend. It is used
  with a non-zero divisor only (the callers return early on an empty playlist).
\<close>

definition js_rem :: "int \<Rightarrow> int \<Rightarrow> int" where
  "js_rem a b = sgn a * (\<bar>a\<bar> mod \<bar>b\<bar>)"

text \<open>
  The calls on the player after the index moved to \<open>newTrack\<close>: made only with a player
  handle and a playlist entry at that index.
\<close>

definition loadTrack :: "Playback \<Rightarrow> int \<Rightarrow> effect list" where
  "loadTrack pb newTrack =
     (if youtubePlayer pb \<and> 0 \<le> newTrack \<and> newTrack < int (length (youtubePlaylist pb)) then
        LoadVideoById (videoId (youtubePlaylist pb ! nat newTrack)) #
          (if isPlaying pb then [PlayMusicAfter 500] else [])
      else [])"

definition nextTrack :: "Playback \<Rightarrow> Playback \<times> effect list" where
  "nextTrack pb =
     (if length (youtubePlaylist pb) = 0 then (pb, [])
      else
        (let newTrack = js_rem (currentTrack pb + 1) (int (length (youtubePlaylist pb)))
         in (pb\<lparr>currentTrack := newTrack\<rparr>, loadTrack pb newTrack)))"

definition previousTrack :: "Playback \<Rightarrow> Playback \<times> effect list" where
  "previousTrack pb =
     (if length (youtubePlaylist pb) = 0 then (pb, [])
      else
        (let newTrack =
           (if currentTrack pb = 0 then int (length (youtubePlaylist pb)) - 1
            else currentTrack pb - 1)
         in (pb\<lparr>currentTrack := newTrack\<rparr>, loadTrack pb newTrack)))"

section \<open>Persistence\<close>

text \<open>
  C6. Reloading a persisted Session snapshot, whatever \<^verbatim>\<open>isActive\<close> it was saved with,
  gives a timer that is not running and has the snapshot's other four fields.
\<close>

theorem load_saved_timer_not_running:
  "loadTimer (saveTimer t) prev = t\<lparr>isActive := False\<rparr>"
  by (simp add: loadTimer_def saveTimer_def spreadTimer_def)

section \<open>The countdown\<close>

lemma tick_seconds:
  "0 < seconds t \<Longrightarrow> tick s g (t, items) = (t\<lparr>seconds := seconds t - 1\<rparr>, items, [])"
  by (simp add: tick_def)

lemma tick_borrow:
  "seconds t \<le> 0 \<Longrightarrow> 0 < minutes t \<Longrightarrow>
   tick s g (t, items) = (t\<lparr>minutes := minutes t - 1, seconds := 59\<rparr>, items, [])"
  by (simp add: tick_def)

lemma tick_boundary_timer:
  "seconds t \<le> 0 \<Longrightarrow> minutes t \<le> 0 \<Longrightarrow>
   fst (tick s g (t, items)) =
     t\<lparr>minutes := (if isBreak t then workDuration s else breakDuration s), seconds := 0,
       isActive := False, isBreak := \<not> isBreak t\<rparr>"
  by (simp add: tick_def Let_def)

lemma tick_nonneg:
  assumes "0 \<le> workDuration s" "0 \<le> breakDuration s" "0 \<le> minutes t" "0 \<le> seconds t"
  shows "0 \<le> minutes (fst (tick s g (t, items))) \<and> 0 \<le> seconds (fst (tick s g (t, items)))"
proof -
  consider "0 < seconds t" | "seconds t \<le> 0" "0 < minutes t" | "seconds t \<le> 0" "minutes t \<le> 0"
    by linarith
  then show ?thesis
  proof cases
    case 1
    then show ?thesis using assms by (simp add: tick_seconds)
  next
    case 2
    then show ?thesis using assms by (simp add: tick_borrow)
  next
    case 3
    then show ?thesis using assms by (simp add: tick_boundary_timer)
  qed
qed

lemma ticks_nonneg:
  "0 \<le> workDuration s \<Longrightarrow> 0 \<le> breakDuration s \<Longrightarrow> 0 \<le> minutes t \<Longrightarrow> 0 \<le> seconds t \<Longrightarrow>
   0 \<le> minutes (fst (ticks s g n (t, items, shown))) \<and>
   0 \<le> seconds (fst (ticks s g n (t, items, shown)))"
proof (induction n arbitrary: t items shown)
  case 0
  then show ?case by simp
next
  case (Suc n)
  obtain t' items' new where step: "tick s g (t, items) = (t', items', new)"
    by (cases "tick s g (t, items)") auto
  have "0 \<le> minutes t' \<and> 0 \<le> seconds t'"
    using tick_nonneg [OF Suc.prems, of g items] step by simp
  then show ?case
    using Suc.IH [of t' items' "shown @ new"] Suc.prems(1,2) step by simp
qed

lemma tick_flip_iff:
  "0 \<le> minutes t \<Longrightarrow> 0 \<le> seconds t \<Longrightarrow>
   (isBreak (fst (tick s g (t, items))) \<noteq> isBreak t) = (minutes t = 0 \<and> seconds t = 0)"
  by (auto simp: tick_def Let_def)

text \<open>
  The other handlers that write the timer keep its minutes and seconds from going below
  zero as well, as long as the durations in the settings are not negative.
\<close>

lemma handlers_keep_remaining_nonneg:
  assumes "0 \<le> workDuration s" and "0 \<le> breakDuration s"
    and "0 \<le> minutes t" and "0 \<le> seconds t"
  shows "0 \<le> minutes (startPomodoroForTask s i) \<and> 0 \<le> seconds (startPomodoroForTask s i)"
    and "0 \<le> minutes (toggleTimer t) \<and> 0 \<le> seconds (toggleTimer t)"
    and "0 \<le> minutes (resetTimer s t) \<and> 0 \<le> seconds (resetTimer s t)"
    and "0 \<le> minutes (switchModeButton s t) \<and> 0 \<le> seconds (switchModeButton s t)"
    and "0 \<le> minutes (snd (deleteTodo i (items, t))) \<and>
         0 \<le> seconds (snd (deleteTodo i (items, t)))"
    and "0 \<le> w \<Longrightarrow>
         0 \<le> minutes (snd (updateSettings (workDurationUpdate w) (s, t))) \<and>
         0 \<le> seconds (snd (updateSettings (workDurationUpdate w) (s, t)))"
  using assms
  by (simp_all add: startPomodoroForTask_def toggleTimer_def resetTimer_def
      switchModeButton_def click_def switchMode_def deleteTodo_def updateSettings_def
      workDurationUpdate_def Let_def)

text \<open>
  With durations that are not negative, a timer whose minutes and seconds are not
  negative keeps them so through any number of ticks. A tick with seconds above zero
  only takes one second off; a tick at zero seconds with minutes above zero takes one
  minute off and sets the seconds to 59; and the kind flips on a tick exactly when that
  tick is taken at zero minutes and zero seconds.
\<close>

lemma tick_nonneg_with_nonneg_durations:
  assumes "0 \<le> workDuration s" and "0 \<le> breakDuration s"
    and "0 \<le> minutes t" and "0 \<le> seconds t"
  shows "(\<forall>n. 0 \<le> minutes (fst (ticks s g n (t, items, shown))) \<and>
              0 \<le> seconds (fst (ticks s g n (t, items, shown)))) \<and>
         (0 < seconds t \<longrightarrow> fst (tick s g (t, items)) = t\<lparr>seconds := seconds t - 1\<rparr>) \<and>
         (seconds t = 0 \<and> 0 < minutes t \<longrightarrow>
            fst (tick s g (t, items)) = t\<lparr>minutes := minutes t - 1, seconds := 59\<rparr>) \<and>
         ((isBreak (fst (tick s g (t, items))) \<noteq> isBreak t) = (minutes t = 0 \<and> seconds t = 0))"
proof (intro conjI allI impI)
  fix n
  show "0 \<le> minutes (fst (ticks s g n (t, items, shown)))"
    and "0 \<le> seconds (fst (ticks s g n (t, items, shown)))"
    using ticks_nonneg [OF assms] by simp_all
next
  assume "0 < seconds t"
  then show "fst (tick s g (t, items)) = t\<lparr>seconds := seconds t - 1\<rparr>"
    by (simp add: tick_seconds)
next
  assume "seconds t = 0 \<and> 0 < minutes t"
  then show "fst (tick s g (t, items)) = t\<lparr>minutes := minutes t - 1, seconds := 59\<rparr>"
    by (simp add: tick_borrow)
next
  show "(isBreak (fst (tick s g (t, items))) \<noteq> isBreak t) = (minutes t = 0 \<and> seconds t = 0)"
    using assms(3,4) by (rule tick_flip_iff)
qed

section \<open>Completing a focus session\<close>

text \<open>
  Before the boundary every tick takes exactly one second off the time left and touches
  neither the tasks nor the other fields of the timer.
\<close>

lemma ticks_before_boundary:
  "0 \<le> minutes t \<Longrightarrow> 0 \<le> seconds t \<Longrightarrow> int j \<le> remainingSeconds t \<Longrightarrow>
   \<exists>t'. ticks s g j (t, items, shown) = (t', items, shown) \<and>
        0 \<le> minutes t' \<and> 0 \<le> seconds t' \<and>
        remainingSeconds t' = remainingSeconds t - int j \<and>
        isActive t' = isActive t \<and> isBreak t' = isBreak t \<and>
        currentTaskId t' = currentTaskId t"
proof (induction j arbitrary: t)
  case 0
  then show ?case by simp
next
  case (Suc j)
  show ?case
  proof (cases "0 < seconds t")
    case True
    let ?u = "t\<lparr>seconds := seconds t - 1\<rparr>"
    have "0 \<le> minutes ?u" "0 \<le> seconds ?u" "int j \<le> remainingSeconds ?u"
      using Suc.prems True by (simp_all add: remainingSeconds_def)
    from Suc.IH [OF this] show ?thesis
      using True by (auto simp: tick_seconds remainingSeconds_def)
  next
    case False
    then have z: "seconds t = 0" and m: "0 < minutes t"
      using Suc.prems by (auto simp: remainingSeconds_def)
    let ?u = "t\<lparr>minutes := minutes t - 1, seconds := 59\<rparr>"
    have "0 \<le> minutes ?u" "0 \<le> seconds ?u" "int j \<le> remainingSeconds ?u"
      using Suc.prems z m by (simp_all add: remainingSeconds_def)
    from Suc.IH [OF this] show ?thesis
      using z m by (auto simp: tick_borrow remainingSeconds_def)
  qed
qed

lemma ticks_add:
  "ticks s g (a + b) st = ticks s g b (ticks s g a st)"
proof (induction a arbitrary: st)
  case 0
  then show ?case by simp
next
  case (Suc a)
  obtain t items shown where st: "st = (t, items, shown)" by (cases st) auto
  show ?case by (simp add: st Suc.IH split: prod.splits)
qed

text \<open>With distinct keys, mapping over the entries with one key updates one position.\<close>

lemma map_distinct_key_update:
  assumes "distinct (map f xs)" and "k < length xs"
  shows "map (\<lambda>x. if Some (f x) = Some (f (xs ! k)) then h x else x) xs = xs[k := h (xs ! k)]"
proof (rule nth_equalityI)
  show "length (map (\<lambda>x. if Some (f x) = Some (f (xs ! k)) then h x else x) xs)
      = length (xs[k := h (xs ! k)])" by simp
next
  fix i
  assume "i < length (map (\<lambda>x. if Some (f x) = Some (f (xs ! k)) then h x else x) xs)"
  then have i: "i < length xs" by simp
  have "f (xs ! i) = f (xs ! k) \<longleftrightarrow> i = k"
    using assms i nth_eq_iff_index_eq [of "map f xs" i k] by simp
  then show "map (\<lambda>x. if Some (f x) = Some (f (xs ! k)) then h x else x) xs ! i
      = xs[k := h (xs ! k)] ! i"
    using i by (auto simp: nth_list_update)
qed

lemma tick_focus_boundary:
  assumes "seconds t \<le> 0" "minutes t \<le> 0" "\<not> isBreak t" "currentTaskId t = Some taskId"
    "taskId \<noteq> []"
  shows "tick s g (t, items) =
    (t\<lparr>minutes := breakDuration s, seconds := 0, isActive := False, isBreak := True\<rparr>,
     map (\<lambda>todo. if Some (id_todo todo) = Some taskId
                  then todo\<lparr>completedPomodoros := completedPomodoros todo + 1\<rparr> else todo) items,
     showNotification s g ''Pomodoro Complete!'' ''Great work! Time for a break.'')"
  using assms by (simp add: tick_def truthy_def Let_def)

lemma tick_no_task:
  "currentTaskId t = None \<Longrightarrow>
   fst (snd (tick s g (t, items))) = items \<and> currentTaskId (fst (tick s g (t, items))) = None"
  by (simp add: tick_def truthy_def Let_def)

lemma ticks_no_task:
  "currentTaskId t = None \<Longrightarrow> fst (snd (ticks s g n (t, items, shown))) = items"
proof (induction n arbitrary: t shown)
  case 0
  then show ?case by simp
next
  case (Suc n)
  obtain t' items' new where step: "tick s g (t, items) = (t', items', new)"
    by (cases "tick s g (t, items)") auto
  then have "items' = items" "currentTaskId t' = None"
    using tick_no_task [OF Suc.prems, of s g items] by simp_all
  then show ?case using Suc.IH [of t' "shown @ new"] step by simp
qed

lemma tick_at_most_one:
  "length (snd (snd (tick s g (t, items)))) \<le> 1 \<and>
   length (fst (snd (tick s g (t, items)))) = length items \<and>
   (\<forall>k < length items.
      completedPomodoros (fst (snd (tick s g (t, items))) ! k) \<le> completedPomodoros (items ! k) + 1)"
  by (simp add: tick_def Let_def showNotification_def)

text \<open>
  A focus session started for the task at position \<open>k\<close>, run to its boundary: the timer
  reaches 0:00 after \<open>60 * workDuration\<close> ticks, still running and with every task as it
  was, and the next tick completes the session. A work duration below zero needs no such
  ticks: the first tick already finds neither seconds nor minutes above zero.
\<close>

lemma focus_session_run:
  assumes d: "distinct (map id_todo items)" and k: "k < length items"
    and ne: "id_todo (items ! k) \<noteq> []"
  shows "\<forall>j \<le> 60 * nat (workDuration s).
           fst (snd (ticks s g j (startPomodoroForTask s (id_todo (items ! k)), items, []))) = items \<and>
           isActive (fst (ticks s g j (startPomodoroForTask s (id_todo (items ! k)), items, [])))"
    and "ticks s g (60 * nat (workDuration s) + 1)
           (startPomodoroForTask s (id_todo (items ! k)), items, []) =
         (\<lparr>minutes = breakDuration s, seconds = 0, isActive = False, isBreak = True,
           currentTaskId = Some (id_todo (items ! k))\<rparr>,
          items[k := (items ! k)\<lparr>completedPomodoros := completedPomodoros (items ! k) + 1\<rparr>],
          showNotification s g ''Pomodoro Complete!'' ''Great work! Time for a break.'')"
proof -
  let ?t0 = "startPomodoroForTask s (id_todo (items ! k))"
  let ?N = "60 * nat (workDuration s)"
  let ?w = "int (nat (workDuration s))"
  let ?u0 = "?t0\<lparr>minutes := ?w\<rparr>"
  have t0: "isActive ?t0" "\<not> isBreak ?t0" "currentTaskId ?t0 = Some (id_todo (items ! k))"
    "seconds ?t0 = 0" "minutes ?t0 = workDuration s"
    by (simp_all add: startPomodoroForTask_def)
  have u0: "0 \<le> minutes ?u0" "0 \<le> seconds ?u0" "remainingSeconds ?u0 = int ?N"
    by (simp_all add: startPomodoroForTask_def remainingSeconds_def)
  have run: "\<exists>t'. ticks s g j (?t0, items, []) = (t', items, []) \<and>
                 isActive t' \<and> \<not> isBreak t' \<and>
                 currentTaskId t' = Some (id_todo (items ! k)) \<and>
                 (j = ?N \<longrightarrow> minutes t' \<le> 0 \<and> seconds t' \<le> 0)"
    if j: "j \<le> ?N" for j
  proof (cases "0 \<le> workDuration s")
    case True
    then have same: "?u0 = ?t0" by (simp add: startPomodoroForTask_def)
    from j have "int j \<le> int ?N" by (simp only: of_nat_le_iff)
    then have "int j \<le> remainingSeconds ?u0" by (simp only: u0(3))
    from ticks_before_boundary [OF u0(1,2) this, of s g items "[]"]
    obtain t' where t': "ticks s g j (?u0, items, []) = (t', items, [])"
      "0 \<le> minutes t'" "0 \<le> seconds t'"
      "remainingSeconds t' = remainingSeconds ?u0 - int j"
      "isActive t' = isActive ?u0" "isBreak t' = isBreak ?u0"
      "currentTaskId t' = currentTaskId ?u0"
      by blast
    have "minutes t' \<le> 0 \<and> seconds t' \<le> 0" if "j = ?N"
    proof -
      have "remainingSeconds t' = 0" using t'(4) u0(3) that by simp
      then show ?thesis using t'(2,3) unfolding remainingSeconds_def by linarith
    qed
    then show ?thesis
      using t'(1,5,6,7) t0(1,2,3) unfolding same by auto
  next
    case False
    then have "j = 0" using j by simp
    then show ?thesis
      using False t0 by auto
  qed
  show "\<forall>j \<le> ?N. fst (snd (ticks s g j (?t0, items, []))) = items \<and>
                   isActive (fst (ticks s g j (?t0, items, [])))"
  proof (intro allI impI)
    fix j assume "j \<le> ?N"
    from run [OF this]
    show "fst (snd (ticks s g j (?t0, items, []))) = items \<and>
          isActive (fst (ticks s g j (?t0, items, [])))"
      by auto
  qed
  from run [of ?N]
  obtain t' where t': "ticks s g ?N (?t0, items, []) = (t', items, [])"
    "isActive t'" "\<not> isBreak t'" "currentTaskId t' = Some (id_todo (items ! k))"
    and zero: "minutes t' \<le> 0" "seconds t' \<le> 0"
    by blast
  have last: "tick s g (t', items) =
    (t'\<lparr>minutes := breakDuration s, seconds := 0, isActive := False, isBreak := True\<rparr>,
     map (\<lambda>todo. if Some (id_todo todo) = Some (id_todo (items ! k))
                  then todo\<lparr>completedPomodoros := completedPomodoros todo + 1\<rparr> else todo) items,
     showNotification s g ''Pomodoro Complete!'' ''Great work! Time for a break.'')"
    using zero t'(3,4) ne by (intro tick_focus_boundary) simp_all
  have t'_upd: "t'\<lparr>minutes := breakDuration s, seconds := 0, isActive := False, isBreak := True\<rparr> =
      \<lparr>minutes = breakDuration s, seconds = 0, isActive = False, isBreak = True,
       currentTaskId = Some (id_todo (items ! k))\<rparr>"
    using t'(4) by (cases t') simp
  have "ticks s g (?N + 1) (?t0, items, []) = ticks s g 1 (t', items, [])"
    using ticks_add [of s g ?N 1 "(?t0, items, [])"] t'(1) by simp
  also have "\<dots> =
    (t'\<lparr>minutes := breakDuration s, seconds := 0, isActive := False, isBreak := True\<rparr>,
     items[k := (items ! k)\<lparr>completedPomodoros := completedPomodoros (items ! k) + 1\<rparr>],
     showNotification s g ''Pomodoro Complete!'' ''Great work! Time for a break.'')"
    using last map_distinct_key_update [OF d k,
        of "\<lambda>todo. todo\<lparr>completedPomodoros := completedPomodoros todo + 1\<rparr>"]
    by simp
  finally show "ticks s g (?N + 1) (?t0, items, []) =
         (\<lparr>minutes = breakDuration s, seconds = 0, isActive = False, isBreak = True,
           currentTaskId = Some (id_todo (items ! k))\<rparr>,
          items[k := (items ! k)\<lparr>completedPomodoros := completedPomodoros (items ! k) + 1\<rparr>],
          showNotification s g ''Pomodoro Complete!'' ''Great work! Time for a break.'')"
    by (simp only: t'_upd)
qed

text \<open>
  C2. A focus session is started for the task at position \<open>k\<close> of a list of tasks with
  distinct ids and ticked through its duration: for the \<open>60 * workDuration\<close> ticks that
  bring the timer to 0:00 the timer keeps running and no task changes, and the tick taken
  at 0:00 stops the timer and adds exactly one to the completed count of that task, every
  other task staying as it was. (The id is not the empty string, which the handler would
  take for no task.) With no current task no number of ticks changes the task
  list. One tick shows at most one notification and raises no completed count by more
  than one.
\<close>

theorem focus_session_completes_one_pomodoro:
  assumes "distinct (map id_todo items)" and "k < length items"
    and "id_todo (items ! k) \<noteq> []"
  shows "(\<forall>j \<le> 60 * nat (workDuration s).
            fst (snd (ticks s g j (startPomodoroForTask s (id_todo (items ! k)), items, []))) = items \<and>
            isActive (fst (ticks s g j (startPomodoroForTask s (id_todo (items ! k)), items, [])))) \<and>
         fst (snd (ticks s g (60 * nat (workDuration s) + 1)
                     (startPomodoroForTask s (id_todo (items ! k)), items, []))) =
           items[k := (items ! k)\<lparr>completedPomodoros := completedPomodoros (items ! k) + 1\<rparr>] \<and>
         \<not> isActive (fst (ticks s g (60 * nat (workDuration s) + 1)
                          (startPomodoroForTask s (id_todo (items ! k)), items, []))) \<and>
         (\<forall>n t others shown.
            currentTaskId t = None \<longrightarrow> fst (snd (ticks s g n (t, others, shown))) = others) \<and>
         (\<forall>t others.
            length (snd (snd (tick s g (t, others)))) \<le> 1 \<and>
            length (fst (snd (tick s g (t, others)))) = length others \<and>
            (\<forall>i < length others.
               completedPomodoros (fst (snd (tick s g (t, others))) ! i)
                 \<le> completedPomodoros (others ! i) + 1))"
proof (intro conjI)
  show "\<forall>j \<le> 60 * nat (workDuration s).
          fst (snd (ticks s g j (startPomodoroForTask s (id_todo (items ! k)), items, []))) = items \<and>
          isActive (fst (ticks s g j (startPomodoroForTask s (id_todo (items ! k)), items, [])))"
    using assms by (rule focus_session_run(1))
  show "fst (snd (ticks s g (60 * nat (workDuration s) + 1)
                    (startPomodoroForTask s (id_todo (items ! k)), items, []))) =
          items[k := (items ! k)\<lparr>completedPomodoros := completedPomodoros (items ! k) + 1\<rparr>]"
    by (simp only: focus_session_run(2) [OF assms] fst_conv snd_conv)
  show "\<not> isActive (fst (ticks s g (60 * nat (workDuration s) + 1)
                          (startPomodoroForTask s (id_todo (items ! k)), items, [])))"
    by (simp only: focus_session_run(2) [OF assms] fst_conv) simp
  show "\<forall>n t others shown.
          currentTaskId t = None \<longrightarrow> fst (snd (ticks s g n (t, others, shown))) = others"
    by (simp add: ticks_no_task)
  show "\<forall>t others.
          length (snd (snd (tick s g (t, others)))) \<le> 1 \<and>
          length (fst (snd (tick s g (t, others)))) = length others \<and>
          (\<forall>i < length others.
             completedPomodoros (fst (snd (tick s g (t, others))) ! i)
               \<le> completedPomodoros (others ! i) + 1)"
    using tick_at_most_one by blast
qed

theorem focus_session_completes_one_pomodoro_witness:
  "fst (snd (ticks (initialSettings\<lparr>workDuration := 1\<rparr>) True 61
       (startPomodoroForTask (initialSettings\<lparr>workDuration := 1\<rparr>) ''1700000000001'',
        [\<lparr>id_todo = ''1700000000001'', title = ''write'', estimatedPomodoros = 2,
          completedPomodoros = 0, isCompleted = False\<rparr>,
         \<lparr>id_todo = ''1700000000002'', title = ''read'', estimatedPomodoros = 1,
          completedPomodoros = 0, isCompleted = False\<rparr>], []))) =
     [\<lparr>id_todo = ''1700000000001'', title = ''write'', estimatedPomodoros = 2,
       completedPomodoros = 1, isCompleted = False\<rparr>,
      \<lparr>id_todo = ''1700000000002'', title = ''read'', estimatedPomodoros = 1,
       completedPomodoros = 0, isCompleted = False\<rparr>] \<and>
   \<not> isActive (fst (ticks (initialSettings\<lparr>workDuration := 1\<rparr>) True 61
       (startPomodoroForTask (initialSettings\<lparr>workDuration := 1\<rparr>) ''1700000000001'',
        [\<lparr>id_todo = ''1700000000001'', title = ''write'', estimatedPomodoros = 2,
          completedPomodoros = 0, isCompleted = False\<rparr>,
         \<lparr>id_todo = ''1700000000002'', title = ''read'', estimatedPomodoros = 1,
          completedPomodoros = 0, isCompleted = False\<rparr>], [])))"
  using focus_session_completes_one_pomodoro
    [where s = "initialSettings\<lparr>workDuration := 1\<rparr>" and k = 0 and g = True and items =
        "[\<lparr>id_todo = ''1700000000001'', title = ''write'', estimatedPomodoros = 2,
           completedPomodoros = 0, isCompleted = False\<rparr>,
          \<lparr>id_todo = ''1700000000002'', title = ''read'', estimatedPomodoros = 1,
           completedPomodoros = 0, isCompleted = False\<rparr>]"]
  by (simp add: initialSettings_def)

section \<open>A negative duration\<close>

text \<open>Ticking a timer down: after as many ticks as it has seconds left it stands at 0:00.\<close>

lemma ticks_to_zero:
  assumes "0 \<le> minutes t" and "0 \<le> seconds t"
  shows "ticks s g (nat (remainingSeconds t)) (t, items, shown) =
           (t\<lparr>minutes := 0, seconds := 0\<rparr>, items, shown)"
proof -
  have "int (nat (remainingSeconds t)) \<le> remainingSeconds t"
    using assms by (simp add: remainingSeconds_def)
  from ticks_before_boundary [OF assms this, of s g items shown]
  obtain t' where t': "ticks s g (nat (remainingSeconds t)) (t, items, shown) = (t', items, shown)"
    "0 \<le> minutes t'" "0 \<le> seconds t'"
    "remainingSeconds t' = remainingSeconds t - int (nat (remainingSeconds t))"
    "isActive t' = isActive t" "isBreak t' = isBreak t" "currentTaskId t' = currentTaskId t"
    by blast
  have "remainingSeconds t' = 0"
    using t'(4) assms by (simp add: remainingSeconds_def)
  then have "minutes t' = 0" "seconds t' = 0"
    using t'(2,3) unfolding remainingSeconds_def by linarith+
  then have "t' = t\<lparr>minutes := 0, seconds := 0\<rparr>"
    using t'(5,6,7) by (cases t, cases t') simp
  then show ?thesis using t'(1) by simp
qed

text \<open>
  C1. The time left should never go below zero, and the kind should flip only on a tick
  taken at 0:00. The user types \<open>-5\<close> into the work-duration input while the timer is at
  its initial 25:00 and not running: the handler stores -5 as the work duration and the
  timer stands at -5:00. Started there, the first tick flips the kind at -5:00. If the
  user instead switches to a break (5:00) and starts it, the 300 ticks of the break bring
  the timer to 0:00 and the next tick sets it to -5:00.
\<close>

theorem negative_work_duration_goes_negative:
  "workDurationChange (Some (- 5)) (initialSettings, initialTimer) =
     (initialSettings\<lparr>workDuration := - 5\<rparr>, initialTimer\<lparr>minutes := - 5\<rparr>) \<and>
   fst (tick (initialSettings\<lparr>workDuration := - 5\<rparr>) g
          (toggleTimer (initialTimer\<lparr>minutes := - 5\<rparr>), [])) =
     \<lparr>minutes = 5, seconds = 0, isActive = False, isBreak = True, currentTaskId = None\<rparr> \<and>
   fst (ticks (initialSettings\<lparr>workDuration := - 5\<rparr>) g 300
          (toggleTimer
             (switchModeButton (initialSettings\<lparr>workDuration := - 5\<rparr>)
                (initialTimer\<lparr>minutes := - 5\<rparr>)), [], [])) =
     \<lparr>minutes = 0, seconds = 0, isActive = True, isBreak = True, currentTaskId = None\<rparr> \<and>
   fst (ticks (initialSettings\<lparr>workDuration := - 5\<rparr>) g 301
          (toggleTimer
             (switchModeButton (initialSettings\<lparr>workDuration := - 5\<rparr>)
                (initialTimer\<lparr>minutes := - 5\<rparr>)), [], [])) =
     \<lparr>minutes = - 5, seconds = 0, isActive = False, isBreak = False, currentTaskId = None\<rparr>"
proof (intro conjI)
  let ?s = "initialSettings\<lparr>workDuration := - 5\<rparr>"
  let ?b = "\<lparr>minutes = 5, seconds = 0, isActive = True, isBreak = True, currentTaskId = None\<rparr>"
  let ?z = "\<lparr>minutes = 0, seconds = 0, isActive = True, isBreak = True, currentTaskId = None\<rparr>"
  show "workDurationChange (Some (- 5)) (initialSettings, initialTimer) =
          (?s, initialTimer\<lparr>minutes := - 5\<rparr>)"
    by (simp add: workDurationChange_def orDefault_def updateSettings_def workDurationUpdate_def
        mergeSettings_def initialSettings_def initialTimer_def Let_def)
  show "fst (tick ?s g (toggleTimer (initialTimer\<lparr>minutes := - 5\<rparr>), [])) =
          \<lparr>minutes = 5, seconds = 0, isActive = False, isBreak = True, currentTaskId = None\<rparr>"
    by (simp add: tick_def toggleTimer_def initialTimer_def initialSettings_def truthy_def
        Let_def)
  have start: "toggleTimer (switchModeButton ?s (initialTimer\<lparr>minutes := - 5\<rparr>)) = ?b"
    by (simp add: toggleTimer_def switchModeButton_def click_def switchMode_def
        initialTimer_def initialSettings_def Let_def)
  have "ticks ?s g (nat (remainingSeconds ?b)) (?b, [], []) =
          (?b\<lparr>minutes := 0, seconds := 0\<rparr>, [], [])"
    by (rule ticks_to_zero) simp_all
  then have down: "ticks ?s g 300 (?b, [], []) = (?z, [], [])"
    by (simp add: remainingSeconds_def)
  show "fst (ticks ?s g 300
          (toggleTimer (switchModeButton ?s (initialTimer\<lparr>minutes := - 5\<rparr>)), [], [])) = ?z"
    by (simp only: start down fst_conv)
  have "ticks ?s g (300 + 1) (?b, [], []) = ticks ?s g 1 (?z, [], [])"
    by (simp only: ticks_add down)
  then have "fst (ticks ?s g 301 (?b, [], [])) = fst (ticks ?s g 1 (?z, [], []))"
    by simp
  also have "\<dots> =
      \<lparr>minutes = - 5, seconds = 0, isActive = False, isBreak = False, currentTaskId = None\<rparr>"
    by (simp add: tick_def initialSettings_def Let_def split: prod.splits)
  finally show "fst (ticks ?s g 301
          (toggleTimer (switchModeButton ?s (initialTimer\<lparr>minutes := - 5\<rparr>)), [], [])) =
      \<lparr>minutes = - 5, seconds = 0, isActive = False, isBreak = False, currentTaskId = None\<rparr>"
    by (simp only: start)
qed

section \<open>Switching the mode\<close>

text \<open>The handler itself has no guard: called on a running timer it would stop and flip it.\<close>

lemma switchMode_unguarded:
  "switchMode s timer =
     \<lparr>minutes = (if isBreak timer then workDuration s else breakDuration s), seconds = 0,
      isActive = False, isBreak = \<not> isBreak timer,
      currentTaskId = (if isBreak timer then currentTaskId timer else None)\<rparr>"
  by (simp add: switchMode_def Let_def)

text \<open>
  C3. While the timer is running the mode switch does nothing: the mode button is disabled
  then, so the click leaves minutes, seconds, the running flag, the kind and the current
  task as they are.
\<close>

theorem switch_mode_noop_while_running:
  "isActive timer \<Longrightarrow> switchModeButton s timer = timer"
  by (simp add: switchModeButton_def click_def)

theorem switch_mode_noop_while_running_witness:
  "isActive \<lparr>minutes = 12, seconds = 30, isActive = True, isBreak = False,
             currentTaskId = Some ''1700000000001''\<rparr> \<and>
   switchModeButton initialSettings
     \<lparr>minutes = 12, seconds = 30, isActive = True, isBreak = False,
      currentTaskId = Some ''1700000000001''\<rparr> =
     \<lparr>minutes = 12, seconds = 30, isActive = True, isBreak = False,
      currentTaskId = Some ''1700000000001''\<rparr>"
  using switch_mode_noop_while_running
    [of "\<lparr>minutes = 12, seconds = 30, isActive = True, isBreak = False,
          currentTaskId = Some ''1700000000001''\<rparr>" initialSettings]
  by simp

section \<open>Deleting a task\<close>

text \<open>
  C4. Deleting a task removes every entry with that id from the task list. If the id is
  the timer's current task, the timer loses its current task and stops, its other fields
  unchanged; otherwise the timer is unchanged.
\<close>

theorem delete_todo_cascade:
  "fst (deleteTodo i (items, timer)) = filter (\<lambda>todo. id_todo todo \<noteq> i) items \<and>
   i \<notin> id_todo ` set (fst (deleteTodo i (items, timer))) \<and>
   (currentTaskId timer = Some i \<longrightarrow>
      snd (deleteTodo i (items, timer)) = timer\<lparr>currentTaskId := None, isActive := False\<rparr>) \<and>
   (currentTaskId timer \<noteq> Some i \<longrightarrow> snd (deleteTodo i (items, timer)) = timer)"
  by (auto simp: deleteTodo_def)

theorem delete_todo_cascade_witness:
  "snd (deleteTodo ''1700000000001''
     ([\<lparr>id_todo = ''1700000000001'', title = ''write'', estimatedPomodoros = 2,
        completedPomodoros = 0, isCompleted = False\<rparr>],
      \<lparr>minutes = 12, seconds = 30, isActive = True, isBreak = False,
       currentTaskId = Some ''1700000000001''\<rparr>)) =
     \<lparr>minutes = 12, seconds = 30, isActive = False, isBreak = False, currentTaskId = None\<rparr> \<and>
   snd (deleteTodo ''1700000000002''
     ([\<lparr>id_todo = ''1700000000001'', title = ''write'', estimatedPomodoros = 2,
        completedPomodoros = 0, isCompleted = False\<rparr>],
      \<lparr>minutes = 12, seconds = 30, isActive = True, isBreak = False,
       currentTaskId = Some ''1700000000001''\<rparr>)) =
     \<lparr>minutes = 12, seconds = 30, isActive = True, isBreak = False,
      currentTaskId = Some ''1700000000001''\<rparr>"
  using delete_todo_cascade
    [of "''1700000000001''"
        "[\<lparr>id_todo = ''1700000000001'', title = ''write'', estimatedPomodoros = 2,
           completedPomodoros = 0, isCompleted = False\<rparr>]"
        "\<lparr>minutes = 12, seconds = 30, isActive = True, isBreak = False,
          currentTaskId = Some ''1700000000001''\<rparr>"]
    delete_todo_cascade
    [of "''1700000000002''"
        "[\<lparr>id_todo = ''1700000000001'', title = ''write'', estimatedPomodoros = 2,
           completedPomodoros = 0, isCompleted = False\<rparr>]"
        "\<lparr>minutes = 12, seconds = 30, isActive = True, isBreak = False,
          currentTaskId = Some ''1700000000001''\<rparr>"]
  by simp

section \<open>Updating the settings\<close>

text \<open>
  What a work-duration update does to the timer: nothing while it runs; otherwise it
  overwrites \<^verbatim>\<open>minutes\<close> with the duration of the current kind and leaves
  \<^verbatim>\<open>seconds\<close> as they are.
\<close>

lemma updateSettings_workDuration_timer:
  "snd (updateSettings (workDurationUpdate w) (s, timer)) =
     (if isActive timer then timer
      else if isBreak timer then timer\<lparr>minutes := breakDuration s\<rparr>
      else timer\<lparr>minutes := w\<rparr>)"
  by (simp add: updateSettings_def workDurationUpdate_def Let_def)

lemma updateSettings_workDuration_settings:
  "fst (updateSettings (workDurationUpdate w) (s, timer)) = s\<lparr>workDuration := w\<rparr>"
  by (simp add: updateSettings_def workDurationUpdate_def mergeSettings_def Let_def)

text \<open>
  C5. A work-duration update on a focus timer that is not running should set the time
  left to the new duration. The timer is started from its initial 25:00, paused after one
  second at 24:59, and the work duration is set to 30: the time left becomes 30:59, not
  30:00, because the update writes the minutes only.
\<close>

theorem update_work_duration_paused_midsession:
  "snd (updateSettings (workDurationUpdate 30)
         (initialSettings,
          toggleTimer (fst (ticks initialSettings g 1 (toggleTimer initialTimer, [], []))))) =
     \<lparr>minutes = 30, seconds = 59, isActive = False, isBreak = False, currentTaskId = None\<rparr>"
  by (simp add: updateSettings_workDuration_timer toggleTimer_def initialTimer_def tick_def)

section \<open>Adding a task\<close>

lemma dropWhile_all:
  "(\<forall>x\<in>set (dropWhile P xs). P x) \<longleftrightarrow> (\<forall>x\<in>set xs. P x)"
  by (induction xs) auto

lemma trim_empty_iff: "trim str = [] \<longleftrightarrow> list_all isWhiteSpace str"
  by (simp add: trim_def list_all_iff dropWhile_all)

text \<open>
  \<^const>\<open>trim\<close> cuts a run of white space off each end, and what it leaves neither starts
  nor ends with white space.
\<close>

lemma rev_dropWhile_split:
  "rev (dropWhile P (rev ys)) @ rev (takeWhile P (rev ys)) = ys"
proof -
  have "rev (dropWhile P (rev ys)) @ rev (takeWhile P (rev ys)) =
      rev (takeWhile P (rev ys) @ dropWhile P (rev ys))"
    by (simp only: rev_append)
  also have "\<dots> = rev (rev ys)" by (simp only: takeWhile_dropWhile_id)
  also have "\<dots> = ys" by (simp only: rev_rev_ident)
  finally show ?thesis .
qed

lemma trim_suffix:
  "trim str @ rev (takeWhile isWhiteSpace (rev (dropWhile isWhiteSpace str))) =
     dropWhile isWhiteSpace str"
  unfolding trim_def by (rule rev_dropWhile_split)

lemma trim_decompose:
  "\<exists>pre suf. str = pre @ trim str @ suf \<and> list_all isWhiteSpace pre \<and> list_all isWhiteSpace suf"
proof -
  let ?m = "dropWhile isWhiteSpace str"
  let ?suf = "rev (takeWhile isWhiteSpace (rev ?m))"
  have "takeWhile isWhiteSpace str @ trim str @ ?suf = takeWhile isWhiteSpace str @ ?m"
    by (simp only: trim_suffix)
  then have "str = takeWhile isWhiteSpace str @ trim str @ ?suf"
    by (simp only: takeWhile_dropWhile_id)
  moreover have "list_all isWhiteSpace (takeWhile isWhiteSpace str)"
    by (auto simp: list_all_iff dest: set_takeWhileD)
  moreover have "list_all isWhiteSpace ?suf"
    by (auto simp: list_all_iff dest: set_takeWhileD)
  ultimately show ?thesis by blast
qed

lemma trim_ends:
  assumes "trim str \<noteq> []"
  shows "\<not> isWhiteSpace (hd (trim str)) \<and> \<not> isWhiteSpace (last (trim str))"
proof
  let ?m = "dropWhile isWhiteSpace str"
  let ?r = "dropWhile isWhiteSpace (rev ?m)"
  have r: "?r \<noteq> []" using assms by (simp add: trim_def)
  have "hd (trim str @ rev (takeWhile isWhiteSpace (rev ?m))) = hd (trim str)"
    using assms by (rule hd_append2)
  then have hd_eq: "hd ?m = hd (trim str)" by (simp only: trim_suffix)
  have "?m \<noteq> []" by (metis r dropWhile.simps(1) rev.simps(1))
  then have "\<not> isWhiteSpace (hd ?m)" by (rule hd_dropWhile)
  then show "\<not> isWhiteSpace (hd (trim str))" unfolding hd_eq .
  have "\<not> isWhiteSpace (hd ?r)" using r by (rule hd_dropWhile)
  moreover have "last (trim str) = hd ?r" using r by (simp add: trim_def last_rev)
  ultimately show "\<not> isWhiteSpace (last (trim str))" by simp
qed

text \<open>
  C9. When every character of the title is white space (the empty title included),
  \<^verbatim>\<open>addTodo\<close> changes nothing: the task list and the form stay as they are, and there
  is no error to propagate. Otherwise the trimmed title is not empty and one task is
  appended, with the trimmed title, no completed pomodoros and not done.
\<close>

theorem add_todo_blank_or_appended:
  "(list_all isWhiteSpace (newTodoTitle st) \<longrightarrow> addTodo now st = st) \<and>
   (\<not> list_all isWhiteSpace (newTodoTitle st) \<longrightarrow>
      trim (newTodoTitle st) \<noteq> [] \<and>
      todos (addTodo now st) =
        todos st @
          [\<lparr>id_todo = toString now, title = trim (newTodoTitle st),
            estimatedPomodoros = newTodoPomodoros st, completedPomodoros = 0,
            isCompleted = False\<rparr>])"
  by (simp add: addTodo_def trim_empty_iff)

theorem add_todo_blank_or_appended_witness:
  "addTodo 1700000000001 \<lparr>todos = [], newTodoTitle = ''   '', newTodoPomodoros = 1\<rparr> =
     \<lparr>todos = [], newTodoTitle = ''   '', newTodoPomodoros = 1\<rparr> \<and>
   todos (addTodo 1700000000001
            \<lparr>todos = [], newTodoTitle = ''  buy milk '', newTodoPomodoros = 3\<rparr>) =
     [\<lparr>id_todo = toString 1700000000001, title = ''buy milk'', estimatedPomodoros = 3,
       completedPomodoros = 0, isCompleted = False\<rparr>]"
  using add_todo_blank_or_appended
      [of "\<lparr>todos = [], newTodoTitle = ''   '', newTodoPomodoros = 1\<rparr>" 1700000000001]
    add_todo_blank_or_appended
      [of "\<lparr>todos = [], newTodoTitle = ''  buy milk '', newTodoPomodoros = 3\<rparr>" 1700000000001]
  by (simp add: isWhiteSpace_def trim_def)

section \<open>The playlist\<close>

lemma extractVideoId_short:
  "extractVideoId ''https://youtu.be/abc123'' = Some ''abc123''"
  by (simp add: extractVideoId_def patterns_def matchLiteral_def idChar_def)

lemma extractVideoId_watch:
  "extractVideoId ''https://www.youtube.com/watch?v=abc123&t=5'' = Some ''abc123''"
  by (simp add: extractVideoId_def patterns_def matchLiteral_def idChar_def)

lemma extractVideoId_embed:
  "extractVideoId ''https://www.youtube.com/embed/abc123'' = Some ''abc123''"
  by (simp add: extractVideoId_def patterns_def matchLiteral_def idChar_def)

lemma extractVideoId_example:
  "extractVideoId ''https://example.com'' = None"
  by (simp add: extractVideoId_def patterns_def matchLiteral_def idChar_def)

lemma addYouTubeTrack_accepted:
  assumes "trim u \<noteq> []" and "extractVideoId u = Some v" and "v \<noteq> []"
  shows "addYouTubeTrack now (pb\<lparr>newYoutubeUrl := u\<rparr>) =
    (pb\<lparr>youtubePlaylist :=
          youtubePlaylist pb @
            [\<lparr>id_track = toString now, title_track = ''YouTube Video '' @ v, videoId = v,
              url = u\<rparr>],
        newYoutubeUrl := []\<rparr>, [])"
  using assms by (simp add: addYouTubeTrack_def)

lemma addYouTubeTrack_rejected:
  assumes "trim u \<noteq> []" and "extractVideoId u = None"
  shows "addYouTubeTrack now (pb\<lparr>newYoutubeUrl := u\<rparr>) =
    (pb\<lparr>newYoutubeUrl := u\<rparr>, [Alert ''Please enter a valid YouTube URL''])"
  using assms by (simp add: addYouTubeTrack_def)

text \<open>
  C7. For the short, the watch and the embed form of the URL the extracted identifier is
  \<open>abc123\<close>, and \<^verbatim>\<open>addYouTubeTrack\<close> appends one track with that \<^verbatim>\<open>videoId\<close> to the
  playlist. For \<^verbatim>\<open>https://example.com\<close> nothing is extracted: the user gets an alert and
  the playlist, like every other cell, is unchanged.
\<close>

theorem add_track_known_urls:
  "extractVideoId ''https://youtu.be/abc123'' = Some ''abc123'' \<and>
   extractVideoId ''https://www.youtube.com/watch?v=abc123&t=5'' = Some ''abc123'' \<and>
   extractVideoId ''https://www.youtube.com/embed/abc123'' = Some ''abc123'' \<and>
   addYouTubeTrack now (pb\<lparr>newYoutubeUrl := ''https://youtu.be/abc123''\<rparr>) =
     (pb\<lparr>youtubePlaylist :=
           youtubePlaylist pb @
             [\<lparr>id_track = toString now, title_track = ''YouTube Video abc123'',
               videoId = ''abc123'', url = ''https://youtu.be/abc123''\<rparr>],
         newYoutubeUrl := []\<rparr>, []) \<and>
   addYouTubeTrack now (pb\<lparr>newYoutubeUrl := ''https://www.youtube.com/watch?v=abc123&t=5''\<rparr>) =
     (pb\<lparr>youtubePlaylist :=
           youtubePlaylist pb @
             [\<lparr>id_track = toString now, title_track = ''YouTube Video abc123'',
               videoId = ''abc123'', url = ''https://www.youtube.com/watch?v=abc123&t=5''\<rparr>],
         newYoutubeUrl := []\<rparr>, []) \<and>
   addYouTubeTrack now (pb\<lparr>newYoutubeUrl := ''https://www.youtube.com/embed/abc123''\<rparr>) =
     (pb\<lparr>youtubePlaylist :=
           youtubePlaylist pb @
             [\<lparr>id_track = toString now, title_track = ''YouTube Video abc123'',
               videoId = ''abc123'', url = ''https://www.youtube.com/embed/abc123''\<rparr>],
         newYoutubeUrl := []\<rparr>, []) \<and>
   extractVideoId ''https://example.com'' = None \<and>
   addYouTubeTrack now (pb\<lparr>newYoutubeUrl := ''https://example.com''\<rparr>) =
     (pb\<lparr>newYoutubeUrl := ''https://example.com''\<rparr>,
      [Alert ''Please enter a valid YouTube URL''])"
proof (intro conjI)
  show "extractVideoId ''https://youtu.be/abc123'' = Some ''abc123''"
    by (rule extractVideoId_short)
  show "extractVideoId ''https://www.youtube.com/watch?v=abc123&t=5'' = Some ''abc123''"
    by (rule extractVideoId_watch)
  show "extractVideoId ''https://www.youtube.com/embed/abc123'' = Some ''abc123''"
    by (rule extractVideoId_embed)
  show "extractVideoId ''https://example.com'' = None"
    by (rule extractVideoId_example)
  have "trim ''https://youtu.be/abc123'' \<noteq> []"
    by (simp add: trim_def isWhiteSpace_def)
  from addYouTubeTrack_accepted [OF this extractVideoId_short, of now pb]
  show "addYouTubeTrack now (pb\<lparr>newYoutubeUrl := ''https://youtu.be/abc123''\<rparr>) =
     (pb\<lparr>youtubePlaylist :=
           youtubePlaylist pb @
             [\<lparr>id_track = toString now, title_track = ''YouTube Video abc123'',
               videoId = ''abc123'', url = ''https://youtu.be/abc123''\<rparr>],
         newYoutubeUrl := []\<rparr>, [])"
    by simp
  have "trim ''https://www.youtube.com/watch?v=abc123&t=5'' \<noteq> []"
    by (simp add: trim_def isWhiteSpace_def)
  from addYouTubeTrack_accepted [OF this extractVideoId_watch, of now pb]
  show "addYouTubeTrack now (pb\<lparr>newYoutubeUrl := ''https://www.youtube.com/watch?v=abc123&t=5''\<rparr>) =
     (pb\<lparr>youtubePlaylist :=
           youtubePlaylist pb @
             [\<lparr>id_track = toString now, title_track = ''YouTube Video abc123'',
               videoId = ''abc123'', url = ''https://www.youtube.com/watch?v=abc123&t=5''\<rparr>],
         newYoutubeUrl := []\<rparr>, [])"
    by simp
  have "trim ''https://www.youtube.com/embed/abc123'' \<noteq> []"
    by (simp add: trim_def isWhiteSpace_def)
  from addYouTubeTrack_accepted [OF this extractVideoId_embed, of now pb]
  show "addYouTubeTrack now (pb\<lparr>newYoutubeUrl := ''https://www.youtube.com/embed/abc123''\<rparr>) =
     (pb\<lparr>youtubePlaylist :=
           youtubePlaylist pb @
             [\<lparr>id_track = toString now, title_track = ''YouTube Video abc123'',
               videoId = ''abc123'', url = ''https://www.youtube.com/embed/abc123''\<rparr>],
         newYoutubeUrl := []\<rparr>, [])"
    by simp
  have "trim ''https://example.com'' \<noteq> []"
    by (simp add: trim_def isWhiteSpace_def)
  from addYouTubeTrack_rejected [OF this extractVideoId_example, of now pb]
  show "addYouTubeTrack now (pb\<lparr>newYoutubeUrl := ''https://example.com''\<rparr>) =
     (pb\<lparr>newYoutubeUrl := ''https://example.com''\<rparr>,
      [Alert ''Please enter a valid YouTube URL''])"
    by simp
qed

text \<open>
  C8. Removing the only track of a one-track playlist by its id leaves the playlist empty
  and the index of the current track at 0, whatever the index was.
\<close>

theorem remove_only_track:
  "youtubePlaylist pb = [track] \<Longrightarrow>
   youtubePlaylist (removeTrack (id_track track) pb) = [] \<and>
   currentTrack (removeTrack (id_track track) pb) = 0"
  by (simp add: removeTrack_def)

theorem remove_only_track_witness:
  "youtubePlaylist
     (removeTrack ''1700000000003''
        \<lparr>youtubePlaylist =
           [\<lparr>id_track = ''1700000000003'', title_track = ''YouTube Video abc123'',
             videoId = ''abc123'', url = ''https://youtu.be/abc123''\<rparr>],
         currentTrack = 7, isPlaying = False, youtubePlayer = False, newYoutubeUrl = []\<rparr>) = [] \<and>
   currentTrack
     (removeTrack ''1700000000003''
        \<lparr>youtubePlaylist =
           [\<lparr>id_track = ''1700000000003'', title_track = ''YouTube Video abc123'',
             videoId = ''abc123'', url = ''https://youtu.be/abc123''\<rparr>],
         currentTrack = 7, isPlaying = False, youtubePlayer = False, newYoutubeUrl = []\<rparr>) = 0"
  using remove_only_track
    [of "\<lparr>youtubePlaylist =
           [\<lparr>id_track = ''1700000000003'', title_track = ''YouTube Video abc123'',
             videoId = ''abc123'', url = ''https://youtu.be/abc123''\<rparr>],
         currentTrack = 7, isPlaying = False, youtubePlayer = False, newYoutubeUrl = []\<rparr>"
        "\<lparr>id_track = ''1700000000003'', title_track = ''YouTube Video abc123'',
          videoId = ''abc123'', url = ''https://youtu.be/abc123''\<rparr>"]
  by simp

lemma js_rem_nonneg: "0 \<le> a \<Longrightarrow> 0 < b \<Longrightarrow> js_rem a b = a mod b"
  by (cases "a = 0") (simp_all add: js_rem_def)

text \<open>
  C10. On an empty playlist \<^verbatim>\<open>nextTrack\<close> and \<^verbatim>\<open>previousTrack\<close> change nothing and
  call nothing. On a playlist of \<open>n\<close> tracks with the index in \<open>[0, n)\<close>, the first moves
  the index to \<open>(i + 1) mod n\<close>, the second to \<open>(i - 1 + n) mod n\<close>, and the second
  after the first gives back the cells as they were.
\<close>

theorem next_then_previous:
  "(youtubePlaylist pb = [] \<longrightarrow> nextTrack pb = (pb, []) \<and> previousTrack pb = (pb, [])) \<and>
   (0 \<le> currentTrack pb \<and> currentTrack pb < int (length (youtubePlaylist pb)) \<longrightarrow>
      currentTrack (fst (nextTrack pb)) =
        (currentTrack pb + 1) mod int (length (youtubePlaylist pb)) \<and>
      currentTrack (fst (previousTrack pb)) =
        (currentTrack pb - 1 + int (length (youtubePlaylist pb))) mod
          int (length (youtubePlaylist pb)) \<and>
      fst (previousTrack (fst (nextTrack pb))) = pb)"
proof (intro conjI impI)
  assume "youtubePlaylist pb = []"
  then show "nextTrack pb = (pb, [])" "previousTrack pb = (pb, [])"
    by (simp_all add: nextTrack_def previousTrack_def)
next
  let ?n = "int (length (youtubePlaylist pb))"
  assume r: "0 \<le> currentTrack pb \<and> currentTrack pb < ?n"
  then have n: "0 < ?n" "youtubePlaylist pb \<noteq> []" by auto
  have nx: "currentTrack (fst (nextTrack pb)) = (currentTrack pb + 1) mod ?n"
    using r n by (simp add: nextTrack_def js_rem_nonneg Let_def)
  show "currentTrack (fst (nextTrack pb)) = (currentTrack pb + 1) mod ?n" by (rule nx)
  have "(currentTrack pb - 1 + ?n) mod ?n =
        (if currentTrack pb = 0 then ?n - 1 else currentTrack pb - 1)"
  proof (cases "currentTrack pb = 0")
    case True
    have "(?n - 1) mod ?n = ?n - 1" using n by (intro mod_pos_pos_trivial) auto
    then show ?thesis using True by (simp add: algebra_simps)
  next
    case False
    have "(currentTrack pb - 1) mod ?n = currentTrack pb - 1"
      using r False by (intro mod_pos_pos_trivial) auto
    then show ?thesis using False by simp
  qed
  then show "currentTrack (fst (previousTrack pb)) = (currentTrack pb - 1 + ?n) mod ?n"
    using n by (simp add: previousTrack_def Let_def)
  have pl: "youtubePlaylist (fst (nextTrack pb)) = youtubePlaylist pb"
    by (simp add: nextTrack_def Let_def)
  have "currentTrack (fst (previousTrack (fst (nextTrack pb)))) = currentTrack pb"
  proof (cases "currentTrack pb + 1 = ?n")
    case True
    then have "currentTrack (fst (nextTrack pb)) = 0" using nx by simp
    then show ?thesis using True n pl by (simp add: previousTrack_def Let_def)
  next
    case False
    then have "currentTrack (fst (nextTrack pb)) = currentTrack pb + 1"
      using nx r by simp
    then show ?thesis using r n pl by (simp add: previousTrack_def Let_def)
  qed
  then show "fst (previousTrack (fst (nextTrack pb))) = pb"
    using n by (simp add: previousTrack_def nextTrack_def Let_def)
qed

theorem next_then_previous_witness:
  "nextTrack \<lparr>youtubePlaylist = [], currentTrack = 0, isPlaying = False,
              youtubePlayer = False, newYoutubeUrl = []\<rparr> =
     (\<lparr>youtubePlaylist = [], currentTrack = 0, isPlaying = False,
       youtubePlayer = False, newYoutubeUrl = []\<rparr>, []) \<and>
   currentTrack (fst (nextTrack
     \<lparr>youtubePlaylist =
        [\<lparr>id_track = ''1'', title_track = ''YouTube Video a'', videoId = ''a'', url = ''u1''\<rparr>,
         \<lparr>id_track = ''2'', title_track = ''YouTube Video b'', videoId = ''b'', url = ''u2''\<rparr>],
      currentTrack = 1, isPlaying = True, youtubePlayer = True, newYoutubeUrl = []\<rparr>)) = 0 \<and>
   fst (previousTrack (fst (nextTrack
     \<lparr>youtubePlaylist =
        [\<lparr>id_track = ''1'', title_track = ''YouTube Video a'', videoId = ''a'', url = ''u1''\<rparr>,
         \<lparr>id_track = ''2'', title_track = ''YouTube Video b'', videoId = ''b'', url = ''u2''\<rparr>],
      currentTrack = 1, isPlaying = True, youtubePlayer = True, newYoutubeUrl = []\<rparr>))) =
     \<lparr>youtubePlaylist =
        [\<lparr>id_track = ''1'', title_track = ''YouTube Video a'', videoId = ''a'', url = ''u1''\<rparr>,
         \<lparr>id_track = ''2'', title_track = ''YouTube Video b'', videoId = ''b'', url = ''u2''\<rparr>],
      currentTrack = 1, isPlaying = True, youtubePlayer = True, newYoutubeUrl = []\<rparr>"
  using next_then_previous
      [of "\<lparr>youtubePlaylist = [], currentTrack = 0, isPlaying = False,
            youtubePlayer = False, newYoutubeUrl = []\<rparr>"]
    next_then_previous
      [of "\<lparr>youtubePlaylist =
        [\<lparr>id_track = ''1'', title_track = ''YouTube Video a'', videoId = ''a'', url = ''u1''\<rparr>,
         \<lparr>id_track = ''2'', title_track = ''YouTube Video b'', videoId = ''b'', url = ''u2''\<rparr>],
      currentTrack = 1, isPlaying = True, youtubePlayer = True, newYoutubeUrl = []\<rparr>"]
  by simp

end
